theory Spec2Isabelle
  imports Main "HOL-Library.Word" "HOL-Library.AList"
begin

section \<open>JavaScript strings\<close>

text \<open>
  A JavaScript string is a sequence of UTF-16 code units. String literals of
  \<^verbatim>\<open>http2ldap.js\<close> are ASCII, so \<open>js\<close> injects them code unit by code unit.
\<close>

type_synonym jsstring = "16 word list"

definition js :: "string \<Rightarrow> jsstring" where
  "js s = map of_char s"

text \<open>\<^verbatim>\<open>s.split(sep)\<close> for a separator of one code unit: never the empty array.\<close>

fun split_js :: "16 word \<Rightarrow> jsstring \<Rightarrow> jsstring list" where
  "split_js sep [] = [[]]"
| "split_js sep (c # cs) =
     (if c = sep then [] # split_js sep cs
      else (c # hd (split_js sep cs)) # tl (split_js sep cs))"

text \<open>\<^verbatim>\<open>a.join(sep)\<close> on an array of strings.\<close>

fun join_js :: "jsstring \<Rightarrow> jsstring list \<Rightarrow> jsstring" where
  "join_js sep [] = []"
| "join_js sep [x] = x"
| "join_js sep (x # y # ys) = x @ sep @ join_js sep (y # ys)"

text \<open>
  \<^verbatim>\<open>'...' + n\<close> for an integral Number \<open>n\<close>: its decimal digits, with a minus
  sign when negative. (The status of an LDAP result is read from a BER
  enumeration, far below the magnitude where JavaScript switches to exponents.)
\<close>

fun digits10 :: "nat \<Rightarrow> jsstring" where
  "digits10 n =
     (if n < 10 then [of_nat (48 + n)]
      else digits10 (n div 10) @ [of_nat (48 + n mod 10)])"

declare digits10.simps [simp del]

definition Number_toString :: "int \<Rightarrow> jsstring" where
  "Number_toString i =
     (if i < 0 then js ''-'' @ digits10 (nat (- i)) else digits10 (nat i))"

section \<open>Query values\<close>

text \<open>
  \<^verbatim>\<open>req.query[k]\<close> is what the query-string parser of Express stored under
  \<open>k\<close>: \<^verbatim>\<open>undefined\<close> when the parameter is absent, a string, an array
  (a repeated parameter) or a plain object (a bracketed parameter, such as
  \<^verbatim>\<open>?scope[a]=1\<close>), whose own properties are listed with their values.
\<close>

datatype qval =
    QUndefined
  | QStr jsstring
  | QArr "qval list"
  | QObj "(jsstring \<times> qval) list"

text \<open>The errors that the program's calls throw.\<close>

datatype js_error = TypeError | URIError | ERR_HTTP_HEADERS_SENT

text \<open>The results of a sequence of calls, up to the first one that throws.\<close>

fun first_error :: "(js_error + 'a) list \<Rightarrow> js_error + 'a list" where
  "first_error [] = Inr []"
| "first_error (Inl e # rs) = Inl e"
| "first_error (Inr x # rs) =
     (case first_error rs of Inl e \<Rightarrow> Inl e | Inr xs \<Rightarrow> Inr (x # xs))"

text \<open>
  The abstract operation ToString on such a value. \<^verbatim>\<open>Array.prototype.toString\<close>
  joins the elements with a comma, converting each in turn, an \<^verbatim>\<open>undefined\<close>
  element giving the empty string. A plain object prints as
  \<^verbatim>\<open>[object Object]\<close> through the \<^verbatim>\<open>toString\<close> it inherits; when it has an
  own property \<^verbatim>\<open>toString\<close> (as \<^verbatim>\<open>?scope[toString]=1\<close> gives it), that
  property is no function, \<^verbatim>\<open>valueOf\<close> yields no primitive either, and the
  conversion throws a TypeError.
\<close>

fun ToString :: "qval \<Rightarrow> js_error + jsstring" where
  "ToString QUndefined = Inr (js ''undefined'')"
| "ToString (QStr s) = Inr s"
| "ToString (QArr xs) =
     (case first_error (map (\<lambda>x. if x = QUndefined then Inr [] else ToString x) xs) of
        Inl e \<Rightarrow> Inl e
      | Inr strs \<Rightarrow> Inr (join_js (js '','') strs))"
| "ToString (QObj kvs) =
     (if js ''toString'' \<in> fst ` set kvs then Inl TypeError
      else Inr (js ''[object Object]''))"

text \<open>
  \<^verbatim>\<open>v == s\<close> for a string \<open>s\<close> (loose equality): \<^verbatim>\<open>undefined\<close> equals
  no string, a string is compared as it is, an array or object is first
  converted to its primitive. For the arrays and objects above that primitive
  is the string that ToString gives, and the conversion throws when ToString
  does.
\<close>

fun loose_eq :: "qval \<Rightarrow> jsstring \<Rightarrow> js_error + bool" where
  "loose_eq QUndefined s = Inr False"
| "loose_eq (QStr t) s = Inr (t = s)"
| "loose_eq v s = (case ToString v of Inl e \<Rightarrow> Inl e | Inr p \<Rightarrow> Inr (p = s))"

section \<open>decodeURI\<close>

text \<open>
  The built-in \<^verbatim>\<open>decodeURI\<close> (ECMA-262, abstract operation Decode with the
  reserved set \<^verbatim>\<open>;/?:@&=+$,#\<close>). \<open>None\<close> stands for the URIError it throws.
\<close>

definition hex_digit :: "16 word \<Rightarrow> nat option" where
  "hex_digit c =
     (if 0x30 \<le> c \<and> c \<le> 0x39 then Some (unat c - 0x30)
      else if 0x41 \<le> c \<and> c \<le> 0x46 then Some (unat c - 0x41 + 10)
      else if 0x61 \<le> c \<and> c \<le> 0x66 then Some (unat c - 0x61 + 10)
      else None)"

definition ParseHexOctet :: "16 word \<Rightarrow> 16 word \<Rightarrow> nat option" where
  "ParseHexOctet h1 h2 =
     (case hex_digit h1 of
        None \<Rightarrow> None
      | Some a \<Rightarrow> (case hex_digit h2 of None \<Rightarrow> None | Some b \<Rightarrow> Some (16 * a + b)))"

text \<open>The number of leading 1 bits of an octet (5 stands for "more than four").\<close>

definition leading_ones :: "nat \<Rightarrow> nat" where
  "leading_ones b =
     (if b < 0x80 then 0 else if b < 0xC0 then 1 else if b < 0xE0 then 2
      else if b < 0xF0 then 3 else if b < 0xF8 then 4 else 5)"

text \<open>The next \<open>n\<close> escapes \<^verbatim>\<open>%XX\<close>, as octets, and the rest of the string.\<close>

fun take_octets :: "nat \<Rightarrow> jsstring \<Rightarrow> (nat list \<times> jsstring) option" where
  "take_octets 0 s = Some ([], s)"
| "take_octets (Suc n) (p # h1 # h2 # rest) =
     (if p \<noteq> 0x25 then None
      else (case ParseHexOctet h1 h2 of
              None \<Rightarrow> None
            | Some b \<Rightarrow>
                (case take_octets n rest of
                   None \<Rightarrow> None
                 | Some (bs, r) \<Rightarrow> Some (b # bs, r))))"
| "take_octets (Suc n) s = None"

definition continuation :: "nat \<Rightarrow> bool" where
  "continuation b = (0x80 \<le> b \<and> b \<le> 0xBF)"

text \<open>
  The code point a well-formed UTF-8 sequence of two to four octets encodes;
  \<open>None\<close> for an overlong form, a surrogate, a value above U+10FFFF or a
  trailing octet that is no continuation octet.
\<close>

fun utf8_code_point :: "nat list \<Rightarrow> nat option" where
  "utf8_code_point [b0, b1] =
     (let v = (b0 - 0xC0) * 64 + (b1 - 0x80)
      in if continuation b1 \<and> 0x80 \<le> v then Some v else None)"
| "utf8_code_point [b0, b1, b2] =
     (let v = (b0 - 0xE0) * 4096 + (b1 - 0x80) * 64 + (b2 - 0x80)
      in if continuation b1 \<and> continuation b2 \<and> 0x800 \<le> v
            \<and> \<not> (0xD800 \<le> v \<and> v \<le> 0xDFFF)
         then Some v else None)"
| "utf8_code_point [b0, b1, b2, b3] =
     (let v = (b0 - 0xF0) * 262144 + (b1 - 0x80) * 4096 + (b2 - 0x80) * 64 + (b3 - 0x80)
      in if continuation b1 \<and> continuation b2 \<and> continuation b3
            \<and> 0x10000 \<le> v \<and> v \<le> 0x10FFFF
         then Some v else None)"
| "utf8_code_point bs = None"

definition UTF16EncodeCodePoint :: "nat \<Rightarrow> jsstring" where
  "UTF16EncodeCodePoint cp =
     (if cp \<le> 0xFFFF then [of_nat cp]
      else [of_nat ((cp - 0x10000) div 0x400 + 0xD800),
            of_nat ((cp - 0x10000) mod 0x400 + 0xDC00)])"

definition reservedURISet :: "16 word set" where
  "reservedURISet = set (js '';/?:@&=+$,#'')"

lemma take_octets_length:
  "take_octets n s = Some (bs, r) \<Longrightarrow> length r \<le> length s"
proof (induction n s arbitrary: bs r rule: take_octets.induct)
  case (1 s)
  then show ?case by simp
next
  case (2 n p h1 h2 rest)
  then show ?case
    by (fastforce split: if_splits option.splits)
qed simp_all

function Decode :: "jsstring \<Rightarrow> jsstring option" where
  "Decode [] = Some []"
| "Decode (c # cs) =
     (if c \<noteq> 0x25 then map_option ((#) c) (Decode cs)
      else (case cs of
              h1 # h2 # rest \<Rightarrow>
                (case ParseHexOctet h1 h2 of
                   None \<Rightarrow> None
                 | Some B \<Rightarrow>
                     (if leading_ones B = 0
                      then map_option
                             ((@) (if of_nat B \<in> reservedURISet then [c, h1, h2] else [of_nat B]))
                             (Decode rest)
                      else if leading_ones B = 1 \<or> 4 < leading_ones B then None
                      else (case take_octets (leading_ones B - 1) rest of
                              None \<Rightarrow> None
                            | Some (octets, rest') \<Rightarrow>
                                (case utf8_code_point (B # octets) of
                                   None \<Rightarrow> None
                                 | Some V \<Rightarrow>
                                     map_option ((@) (UTF16EncodeCodePoint V)) (Decode rest')))))
            | _ \<Rightarrow> None))"
  by pat_completeness auto
termination
  by (relation "measure length") (auto dest: take_octets_length)

text \<open>
  \<^verbatim>\<open>decodeURI(v)\<close>: the argument is converted to a string and decoded. It
  throws the TypeError of the conversion or the URIError of the decoding.
\<close>

definition decodeURI :: "qval \<Rightarrow> js_error + jsstring" where
  "decodeURI v =
     (case ToString v of
        Inl e \<Rightarrow> Inl e
      | Inr s \<Rightarrow> (case Decode s of None \<Rightarrow> Inl URIError | Some d \<Rightarrow> Inr d))"

section \<open>The request handler\<close>

text \<open>
  What the handler reads of the request: \<^verbatim>\<open>req.path\<close> and \<^verbatim>\<open>req.query\<close>
  (a parameter that is absent has no entry in the map).
\<close>

record request =
  path :: jsstring
  query :: "jsstring \<rightharpoonup> qval"

definition query_get :: "request \<Rightarrow> jsstring \<Rightarrow> qval" where
  "query_get req k = (case query req k of None \<Rightarrow> QUndefined | Some v \<Rightarrow> v)"

text \<open>
  The options object of a search: a property that the object does not have is
  \<open>None\<close>, so \<^verbatim>\<open>{}\<close> is \<open>no_options\<close>.
\<close>

record search_options =
  so_filter :: "jsstring option"
  so_scope :: "jsstring option"
  so_attributes :: "jsstring list option"

definition no_options :: search_options where
  "no_options = \<lparr>so_filter = None, so_scope = None, so_attributes = None\<rparr>"

text \<open>
  The shared LDAP client, as far as the handler acts on it: the searches issued
  so far, each \<^verbatim>\<open>client.search(base, options, callback)\<close> appending one.
\<close>

record search_call =
  sc_base :: jsstring
  sc_options :: search_options

record ldap_client =
  issued :: "search_call list"

definition client_search :: "jsstring \<Rightarrow> search_options \<Rightarrow> ldap_client \<Rightarrow> ldap_client" where
  "client_search base options cl =
     cl\<lparr>issued := issued cl @ [\<lparr>sc_base = base, sc_options = options\<rparr>]\<rparr>"

text \<open>Line 63: \<^verbatim>\<open>req.path.substring(1).split("/").reverse().join(",")\<close>.\<close>

definition searchBase :: "request \<Rightarrow> jsstring" where
  "searchBase req = join_js (js '','') (rev (split_js 0x2F (drop 1 (path req))))"

text \<open>
  Lines 67 to 71: the scope name computed from \<^verbatim>\<open>req.query["scope"]\<close>, or
  the TypeError that one of the two comparisons throws.
\<close>

definition scope :: "request \<Rightarrow> js_error + jsstring" where
  "scope req =
     (let scopeNumber = query_get req (js ''scope'');
          scope0 = js ''base''
      in case loose_eq scopeNumber (js ''1'') of
           Inl e \<Rightarrow> Inl e
         | Inr is1 \<Rightarrow>
             (let scope1 = (if is1 then js ''one'' else scope0)
              in case loose_eq scopeNumber (js ''2'') of
                   Inl e \<Rightarrow> Inl e
                 | Inr is2 \<Rightarrow> Inr (if is2 then js ''sub'' else scope1)))"

text \<open>
  The synchronous part of the handler, lines 60 to 81. It returns the error
  thrown, if any, and the client after it. The calls that can throw are
  \<^verbatim>\<open>decodeURI\<close> on line 65 and the comparisons of lines 70 and 71, in this
  order; nothing catches their errors. The object \<open>opts\<close> is built and the
  search is then issued with the literal \<^verbatim>\<open>{}\<close> as its options, as line 81
  has it. The debug output to the console is left out.
\<close>

definition handler :: "request \<Rightarrow> ldap_client \<Rightarrow> js_error option \<times> ldap_client" where
  "handler req client =
     (let searchBase' = searchBase req in
      case decodeURI (query_get req (js ''filter'')) of
        Inl e \<Rightarrow> (Some e, client)
      | Inr filter' \<Rightarrow>
          (case scope req of
             Inl e \<Rightarrow> (Some e, client)
           | Inr scope' \<Rightarrow>
               (let opts = \<lparr>so_filter = Some filter', so_scope = Some scope',
                            so_attributes = Some []\<rparr>
                in (None, client_search searchBase' no_options client))))"

section \<open>The search callback\<close>

text \<open>
  An entry as \<^verbatim>\<open>entry.pojo\<close> gives it, and the object \<open>resp\<close> built from it.
  The own properties of \<^verbatim>\<open>resp.attributes\<close> are an association list.
\<close>

record raw_attribute =
  attr_type :: jsstring
  attr_values :: "jsstring list"

record pojo =
  objectName :: jsstring
  pojo_attributes :: "raw_attribute list"

type_synonym js_object = "(jsstring \<times> jsstring list) list"

record resp =
  dn :: jsstring
  attributes :: js_object

text \<open>
  \<^verbatim>\<open>o[k] = v\<close> on an ordinary object, for an array \<open>v\<close>: the key
  \<^verbatim>\<open>__proto__\<close> is the accessor inherited from \<^verbatim>\<open>Object.prototype\<close>, whose
  setter replaces the prototype of \<open>o\<close> and gives it no own property; any
  other key gets or replaces an own property.
\<close>

definition obj_set :: "jsstring \<Rightarrow> jsstring list \<Rightarrow> js_object \<Rightarrow> js_object" where
  "obj_set k v obj = (if k = js ''__proto__'' then obj else AList.update k v obj)"

text \<open>Line 104, the body of the \<^verbatim>\<open>forEach\<close> callback.\<close>

definition set_attr :: "js_object \<Rightarrow> raw_attribute \<Rightarrow> js_object" where
  "set_attr obj attr = obj_set (attr_type attr) (attr_values attr) obj"

text \<open>Lines 99 to 105: the \<^verbatim>\<open>forEach\<close> over the attributes, from the empty object.\<close>

definition flatten :: "pojo \<Rightarrow> resp" where
  "flatten entry =
     \<lparr>dn = objectName entry,
      attributes = foldl set_attr [] (pojo_attributes entry)\<rparr>"

text \<open>
  The HTTP response object. \<open>statusCode\<close> is its mutable field (200 until
  set); \<open>committed\<close> is what went on the wire, the status and the value given
  to \<^verbatim>\<open>res.json\<close> (\<open>None\<close> for an empty body), once the response is sent.
  \<^verbatim>\<open>res.json\<close> on a response already sent throws, since it sets a header;
  \<^verbatim>\<open>res.end()\<close> on one is a no-op.
\<close>

datatype body = EntryArray "resp list" | MessageObject jsstring

record response =
  statusCode :: nat
  committed :: "(nat \<times> body option) option"

definition fresh_response :: response where
  "fresh_response = \<lparr>statusCode = 200, committed = None\<rparr>"

definition res_status :: "nat \<Rightarrow> response \<Rightarrow> response" where
  "res_status n r = r\<lparr>statusCode := n\<rparr>"

definition res_json :: "body \<Rightarrow> response \<Rightarrow> js_error option \<times> response" where
  "res_json v r =
     (case committed r of
        Some c \<Rightarrow> (Some ERR_HTTP_HEADERS_SENT, r)
      | None \<Rightarrow> (None, r\<lparr>committed := Some (statusCode r, Some v)\<rparr>))"

definition res_end :: "response \<Rightarrow> response" where
  "res_end r =
     (case committed r of
        Some c \<Rightarrow> r
      | None \<Rightarrow> r\<lparr>committed := Some (statusCode r, None)\<rparr>)"

text \<open>The state the listeners share: the array \<open>entries\<close> and the response.\<close>

record session =
  entries :: "resp list"
  res :: response

datatype ldap_error = NoSuchObjectError jsstring | OtherError jsstring

fun message :: "ldap_error \<Rightarrow> jsstring" where
  "message (NoSuchObjectError m) = m"
| "message (OtherError m) = m"

datatype event =
    SearchEntry pojo
  | End int
  | Error ldap_error
  | SearchReference "jsstring list"

text \<open>
  A chain \<^verbatim>\<open>res.json(v).end()\<close>: the \<^verbatim>\<open>end\<close> runs only when \<^verbatim>\<open>json\<close>
  did not throw.
\<close>

definition json_end :: "body \<Rightarrow> session \<Rightarrow> js_error option \<times> session" where
  "json_end v st =
     (case res_json v (res st) of
        (Some e, r) \<Rightarrow> (Some e, st\<lparr>res := r\<rparr>)
      | (None, r) \<Rightarrow> (None, st\<lparr>res := res_end r\<rparr>))"

text \<open>
  The four listeners of lines 92 to 143, for the search base \<open>sb\<close> of the
  request. Each returns the error it throws, if any, and the state it leaves.
  After \<^verbatim>\<open>res.json(entries)\<close> the \<open>end\<close> listener calls \<^verbatim>\<open>next()\<close>, which
  finds no further route and leaves a response already sent alone.
\<close>

fun on_event :: "jsstring \<Rightarrow> event \<Rightarrow> session \<Rightarrow> js_error option \<times> session" where
  "on_event sb (SearchEntry entry) st = (None, st\<lparr>entries := entries st @ [flatten entry]\<rparr>)"
| "on_event sb (End status) st =
     (if status \<noteq> 0
      then json_end (MessageObject (js ''ldap status result was: '' @ Number_toString status))
             (st\<lparr>res := res_status 400 (res st)\<rparr>)
      else (case res_json (EntryArray (entries st)) (res st) of
              (e, r) \<Rightarrow> (e, st\<lparr>res := r\<rparr>)))"
| "on_event sb (Error err) st =
     (case err of
        NoSuchObjectError m \<Rightarrow>
          json_end (MessageObject (js ''not found: '' @ sb)) (st\<lparr>res := res_status 400 (res st)\<rparr>)
      | OtherError m \<Rightarrow>
          json_end (MessageObject (message err)) (st\<lparr>res := res_status 500 (res st)\<rparr>))"
| "on_event sb (SearchReference uris) st =
     json_end (MessageObject (js ''referrals not supported''))
       (st\<lparr>res := res_status 400 (res st)\<rparr>)"

text \<open>
  The events of one result stream, delivered in order. An error thrown by a
  listener is not caught by the program, so delivery stops there.
\<close>

fun deliver :: "jsstring \<Rightarrow> event list \<Rightarrow> session \<Rightarrow> js_error option \<times> session" where
  "deliver sb [] st = (None, st)"
| "deliver sb (ev # evs) st =
     (case on_event sb ev st of
        (Some e, st') \<Rightarrow> (Some e, st')
      | (None, st') \<Rightarrow> deliver sb evs st')"

text \<open>
  The callback given to \<^verbatim>\<open>client.search\<close>, lines 81 to 144: either the
  search could not be issued (\<open>ldapErr\<close>), or a result stream is listened to
  with a new, empty \<open>entries\<close>.
\<close>

datatype search_reply = LdapErr | LdapRes "event list"

fun search_callback :: "jsstring \<Rightarrow> search_reply \<Rightarrow> response \<Rightarrow> js_error option \<times> session" where
  "search_callback sb LdapErr r = (None, \<lparr>entries = [], res = res_end (res_status 500 r)\<rparr>)"
| "search_callback sb (LdapRes evs) r = deliver sb evs \<lparr>entries = [], res = r\<rparr>"

text \<open>
  One request from beginning to end: the handler and then, when it has issued
  the search, the callback on what the directory replies. No listener calls
  the client, so the client after the request is the one the handler left.
\<close>

definition serve ::
  "request \<Rightarrow> search_reply \<Rightarrow> ldap_client \<Rightarrow> response
     \<Rightarrow> js_error option \<times> ldap_client \<times> response" where
  "serve req reply client r =
     (case handler req client of
        (Some e, client') \<Rightarrow> (Some e, client', r)
      | (None, client') \<Rightarrow>
          (case search_callback (searchBase req) reply r of
             (e, st) \<Rightarrow> (e, client', res st)))"

text \<open>The events that answer the request: every one but an entry.\<close>

fun is_terminal :: "event \<Rightarrow> bool" where
  "is_terminal (SearchEntry entry) = False"
| "is_terminal ev = True"

section \<open>Strings and decoding\<close>

lemma split_js_not_Nil: "split_js sep s \<noteq> []"
  by (induction s) auto

lemma split_js_no_sep: "sep \<notin> set x \<Longrightarrow> split_js sep x = [x]"
  by (induction x) auto

lemma split_js_append_sep:
  "sep \<notin> set x \<Longrightarrow> split_js sep (x @ sep # rest) = x # split_js sep rest"
  by (induction x) auto

lemma split_js_join_js:
  "segs \<noteq> [] \<Longrightarrow> \<forall>s\<in>set segs. sep \<notin> set s \<Longrightarrow> split_js sep (join_js [sep] segs) = segs"
proof (induction "[sep]" segs rule: join_js.induct)
  case 1
  then show ?case by simp
next
  case (2 x)
  then show ?case by (simp add: split_js_no_sep)
next
  case (3 x y ys)
  then show ?case by (simp add: split_js_append_sep)
qed

text \<open>
  A comparison with a string throws exactly when the conversion of the value
  to a string does; otherwise it compares that string, \<^verbatim>\<open>undefined\<close> being
  equal to none.
\<close>

lemma loose_eq_ToString:
  "loose_eq v s =
     (case ToString v of
        Inl e \<Rightarrow> Inl e
      | Inr t \<Rightarrow> Inr (v \<noteq> QUndefined \<and> t = s))"
  by (cases v) (auto split: sum.splits)

lemma ToString_own_toString:
  "ToString (QObj [(js ''toString'', v)]) = Inl TypeError"
  by simp

text \<open>A string without a percent sign decodes to itself.\<close>

lemma Decode_no_percent: "0x25 \<notin> set s \<Longrightarrow> Decode s = Some s"
  by (induction s) auto

text \<open>A percent sign that two hexadecimal digits do not follow is rejected.\<close>

lemma Decode_truncated_escape:
  "0x25 \<notin> set pre \<Longrightarrow> length rest < 2 \<Longrightarrow> Decode (pre @ 0x25 # rest) = None"
proof (induction pre)
  case Nil
  then show ?case
    by (cases rest) (auto split: list.splits)
next
  case (Cons c pre)
  then show ?case by simp
qed

lemma Decode_bad_hex:
  "0x25 \<notin> set pre \<Longrightarrow> ParseHexOctet h1 h2 = None \<Longrightarrow>
   Decode (pre @ 0x25 # h1 # h2 # rest) = None"
  by (induction pre) auto

lemma decodeURI_undefined: "decodeURI QUndefined = Inr (js ''undefined'')"
  by (simp add: decodeURI_def Decode_no_percent js_def)

lemma decodeURI_example: "decodeURI (QStr (js ''(cn=a)'')) = Inr (js ''(cn=a)'')"
  by (simp add: decodeURI_def Decode_no_percent js_def)

lemma Decode_malformed: "Decode (js ''%E0%A4%A'') = None"
  by code_simp

lemma decodeURI_malformed: "decodeURI (QStr (js ''%E0%A4%A'')) = Inl URIError"
  by (simp add: decodeURI_def Decode_malformed)

section \<open>The handler\<close>

text \<open>
  The scope name, by the string form of the value: an error when the value has
  none, and otherwise \<^verbatim>\<open>one\<close> for \<^verbatim>\<open>"1"\<close>, \<^verbatim>\<open>sub\<close> for \<^verbatim>\<open>"2"\<close> and
  \<^verbatim>\<open>base\<close> for every other value and for an absent parameter.
\<close>

lemma scope_cases:
  "scope req =
     (case ToString (query_get req (js ''scope'')) of
        Inl e \<Rightarrow> Inl e
      | Inr t \<Rightarrow>
          Inr (if query_get req (js ''scope'') = QUndefined then js ''base''
               else if t = js ''1'' then js ''one''
               else if t = js ''2'' then js ''sub'' else js ''base''))"
proof -
  have ne: "js ''1'' \<noteq> js ''2''" by (simp add: js_def)
  show ?thesis
    using ne by (auto simp: scope_def Let_def loose_eq_ToString split: sum.splits)
qed

lemma filter_neq_scope: "js ''filter'' \<noteq> js ''scope''"
  by (simp add: js_def)

lemma scope_examples:
  "scope \<lparr>path = p, query = [js ''scope'' \<mapsto> QStr (js ''0'')]\<rparr> = Inr (js ''base'')"
  "scope \<lparr>path = p, query = [js ''scope'' \<mapsto> QStr (js ''1'')]\<rparr> = Inr (js ''one'')"
  "scope \<lparr>path = p, query = [js ''scope'' \<mapsto> QStr (js ''2'')]\<rparr> = Inr (js ''sub'')"
  "scope \<lparr>path = p, query = [js ''scope'' \<mapsto> QStr (js ''3'')]\<rparr> = Inr (js ''base'')"
  "scope \<lparr>path = p, query = Map.empty\<rparr> = Inr (js ''base'')"
  "scope \<lparr>path = p, query = [js ''scope'' \<mapsto> QArr [QStr (js ''1'')]]\<rparr> = Inr (js ''one'')"
  "scope \<lparr>path = p, query = [js ''scope'' \<mapsto> QObj [(js ''toString'', QStr (js ''1''))]]\<rparr>
     = Inl TypeError"
  by (simp_all add: scope_cases query_get_def) (simp_all add: js_def)

text \<open>
  The handler either throws, the error of \<^verbatim>\<open>decodeURI\<close> or else that of
  the scope comparisons, and leaves the client alone, or issues one search
  with the options \<^verbatim>\<open>{}\<close>.
\<close>

lemma handler_cases:
  "handler req client =
     (case decodeURI (query_get req (js ''filter'')) of
        Inl e \<Rightarrow> (Some e, client)
      | Inr f \<Rightarrow>
          (case scope req of
             Inl e \<Rightarrow> (Some e, client)
           | Inr s \<Rightarrow> (None, client_search (searchBase req) no_options client)))"
  by (simp add: handler_def Let_def split: sum.split)

lemma first_error_Inl: "first_error rs = Inl e \<Longrightarrow> Inl e \<in> set rs"
  by (induction rs rule: first_error.induct) (auto split: sum.splits)

lemma ToString_error: "ToString v = Inl e \<Longrightarrow> e = TypeError"
proof (induction v rule: ToString.induct)
  case 1
  then show ?case by simp
next
  case (2 s)
  then show ?case by simp
next
  case (3 xs)
  from "3.prems"
  have "Inl e \<in> set (map (\<lambda>x. if x = QUndefined then Inr [] else ToString x) xs)"
    by (auto split: sum.splits dest: first_error_Inl)
  then obtain x where "x \<in> set xs" "x \<noteq> QUndefined" "ToString x = Inl e"
    by (auto split: if_splits)
  with "3.IH" show ?case by blast
next
  case (4 kvs)
  then show ?case by (auto split: if_splits)
qed

lemma decodeURI_error: "decodeURI v = Inl e \<Longrightarrow> e = TypeError \<or> e = URIError"
  by (auto simp: decodeURI_def split: sum.splits option.splits dest: ToString_error)

lemma scope_error: "scope req = Inl e \<Longrightarrow> e = TypeError"
  by (auto simp: scope_cases split: sum.splits dest: ToString_error)

lemma handler_throws_or_searches:
  "handler req client = (Some TypeError, client)
   \<or> handler req client = (Some URIError, client)
   \<or> handler req client = (None, client_search (searchBase req) no_options client)"
  by (auto simp: handler_cases split: sum.splits dest: decodeURI_error scope_error)

lemma serve_client: "fst (snd (serve req reply client r)) = snd (handler req client)"
  by (auto simp: serve_def split: prod.splits option.splits)

text \<open>
  C1. The filter decoded from \<^verbatim>\<open>?filter=(cn=a)\<close> is stored in \<open>opts\<close> only:
  the search the handler issues for \<^verbatim>\<open>GET /dc=com?filter=(cn=a)\<close> has the
  base \<^verbatim>\<open>dc=com\<close> and an options object without a filter.
\<close>

theorem filter_not_forwarded:
  "handler \<lparr>path = js ''/dc=com'', query = [js ''filter'' \<mapsto> QStr (js ''(cn=a)'')]\<rparr>
           \<lparr>issued = []\<rparr>
     = (None, \<lparr>issued = [\<lparr>sc_base = js ''dc=com'',
                            sc_options = \<lparr>so_filter = None, so_scope = None,
                                           so_attributes = None\<rparr>\<rparr>]\<rparr>)"
  by (simp add: handler_cases scope_cases query_get_def decodeURI_example client_search_def
        no_options_def searchBase_def) (simp add: js_def)

text \<open>
  C2. For a path \<^verbatim>\<open>/seg1/.../segN\<close> (segments free of \<^verbatim>\<open>/\<close>, possibly
  empty), the search base is the segments in reversed order joined with commas,
  and it is the base of the search the handler issues (when it issues one).
  The path \<^verbatim>\<open>/\<close> is the case of the single empty segment.
\<close>

theorem searchBase_reversed_segments:
  assumes "segs \<noteq> []"
    and "\<forall>s\<in>set segs. 0x2F \<notin> set s"
    and "path req = 0x2F # join_js [0x2F] segs"
  shows "searchBase req = join_js (js '','') (rev segs)
         \<and> (handler req client = (Some TypeError, client)
            \<or> handler req client = (Some URIError, client)
            \<or> handler req client
                = (None, client_search (join_js (js '','') (rev segs)) no_options client))"
proof -
  have "split_js 0x2F (drop 1 (path req)) = segs"
    using assms by (simp add: split_js_join_js)
  then have sb: "searchBase req = join_js (js '','') (rev segs)"
    by (simp add: searchBase_def)
  with handler_throws_or_searches [of req client] show ?thesis
    by simp
qed

theorem searchBase_reversed_segments_witness:
  "searchBase \<lparr>path = js ''/dc=com/dc=example/ou=people'', query = Map.empty\<rparr>
     = js ''ou=people,dc=example,dc=com''
   \<and> searchBase \<lparr>path = js ''/'', query = Map.empty\<rparr> = []"
  using searchBase_reversed_segments
          [of "[js ''dc=com'', js ''dc=example'', js ''ou=people'']"
              "\<lparr>path = js ''/dc=com/dc=example/ou=people'', query = Map.empty\<rparr>"]
        searchBase_reversed_segments [of "[[]]" "\<lparr>path = js ''/'', query = Map.empty\<rparr>"]
  by (simp add: js_def)

text \<open>
  C3. For \<^verbatim>\<open>GET /dc=com?scope=2\<close> lines 67 to 71 compute the scope name
  \<^verbatim>\<open>sub\<close>, but the search the handler issues has an options object without
  a scope: the translated scope is stored in \<open>opts\<close> only and never reaches the
  directory search.
\<close>

theorem scope_not_forwarded:
  "scope \<lparr>path = js ''/dc=com'', query = [js ''scope'' \<mapsto> QStr (js ''2'')]\<rparr>
     = Inr (js ''sub'')
   \<and> handler \<lparr>path = js ''/dc=com'', query = [js ''scope'' \<mapsto> QStr (js ''2'')]\<rparr>
              \<lparr>issued = []\<rparr>
     = (None, \<lparr>issued = [\<lparr>sc_base = js ''dc=com'',
                            sc_options = \<lparr>so_filter = None, so_scope = None,
                                           so_attributes = None\<rparr>\<rparr>]\<rparr>)"
  by (simp add: handler_cases scope_cases query_get_def decodeURI_undefined client_search_def
        no_options_def searchBase_def) (simp add: js_def)

text \<open>
  C4, as stated, fails: for \<^verbatim>\<open>GET /dc=com?filter=%E0%A4%A\<close> the handler
  throws the URIError of line 65 and issues no search at all, and for
  \<^verbatim>\<open>GET /dc=x?scope[toString]=1\<close> it throws the TypeError of line 70 and
  issues none either.
\<close>

theorem one_search_counterexample:
  "issued (snd (handler
      \<lparr>path = js ''/dc=com'', query = [js ''filter'' \<mapsto> QStr (js ''%E0%A4%A'')]\<rparr>
      \<lparr>issued = []\<rparr>)) = []
   \<and> handler
      \<lparr>path = js ''/dc=x'', query = [js ''scope'' \<mapsto> QObj [(js ''toString'', QStr (js ''1''))]]\<rparr>
      \<lparr>issued = []\<rparr> = (Some TypeError, \<lparr>issued = []\<rparr>)"
  by (simp add: handler_cases scope_cases query_get_def decodeURI_malformed decodeURI_undefined
        filter_neq_scope)

text \<open>
  C4, amended. For every request whose filter value converts to a string that
  \<^verbatim>\<open>decodeURI\<close> accepts and whose scope value converts to a string (so that
  neither line 65 nor lines 70 and 71 throw), the handler calls
  \<^verbatim>\<open>client.search\<close> exactly once, on the search base of the request, and the
  options of that search ask for no attribute projection.
\<close>

theorem one_search_without_projection:
  assumes "decodeURI (query_get req (js ''filter'')) = Inr f"
    and "ToString (query_get req (js ''scope'')) = Inr t"
  shows "\<exists>call. issued (snd (handler req client)) = issued client @ [call]
           \<and> sc_base call = searchBase req
           \<and> so_attributes (sc_options call) = None
           \<and> fst (handler req client) = None"
  using assms by (auto simp: handler_cases scope_cases client_search_def no_options_def)

theorem one_search_without_projection_witness:
  "\<exists>call. issued (snd (handler
      \<lparr>path = js ''/dc=com'', query = [js ''filter'' \<mapsto> QStr (js ''(cn=a)'')]\<rparr>
      \<lparr>issued = []\<rparr>)) = [call]
    \<and> sc_base call = js ''dc=com''
    \<and> so_attributes (sc_options call) = None"
proof -
  let ?req = "\<lparr>path = js ''/dc=com'', query = [js ''filter'' \<mapsto> QStr (js ''(cn=a)'')]\<rparr>"
  have h: "decodeURI (query_get ?req (js ''filter'')) = Inr (js ''(cn=a)'')"
    by (simp add: query_get_def decodeURI_example)
  have s: "ToString (query_get ?req (js ''scope'')) = Inr (js ''undefined'')"
    by (simp add: query_get_def js_def)
  have sb: "searchBase ?req = js ''dc=com''"
    by (simp add: searchBase_def js_def)
  from one_search_without_projection [OF h s, of "\<lparr>issued = []\<rparr>"] show ?thesis
    by (auto simp: sb)
qed

section \<open>Flattening an entry\<close>

lemma foldl_set_attr_keys:
  "fst ` set (foldl set_attr acc attrs)
     = fst ` set acc \<union> (attr_type ` set attrs - {js ''__proto__''})"
  by (induction attrs arbitrary: acc) (auto simp: set_attr_def obj_set_def AList.dom_update)

lemma foldl_set_attr_distinct:
  "distinct (map fst acc) \<Longrightarrow> distinct (map fst (foldl set_attr acc attrs))"
  by (induction attrs arbitrary: acc) (auto simp: set_attr_def obj_set_def AList.distinct_update)

lemma foldl_set_attr_lookup:
  "k \<noteq> js ''__proto__'' \<Longrightarrow>
   map_of (foldl set_attr acc attrs) k
     = (case map_of (rev (map (\<lambda>a. (attr_type a, attr_values a)) attrs)) k of
          Some v \<Rightarrow> Some v
        | None \<Rightarrow> map_of acc k)"
  by (induction attrs arbitrary: acc)
     (auto simp: set_attr_def obj_set_def AList.update_conv' map_add_def split: option.splits)

text \<open>
  What flattening does for every attribute type but \<^verbatim>\<open>__proto__\<close>: the keys
  are distinct, they are the types of the raw entry, and each carries the value
  sequence of the last attribute of that type, as it is.
\<close>

lemma flatten_attributes:
  "distinct (map fst (attributes (flatten entry)))"
  "fst ` set (attributes (flatten entry))
     = attr_type ` set (pojo_attributes entry) - {js ''__proto__''}"
  "k \<noteq> js ''__proto__'' \<Longrightarrow>
   map_of (attributes (flatten entry)) k
     = map_of (rev (map (\<lambda>a. (attr_type a, attr_values a)) (pojo_attributes entry))) k"
  "dn (flatten entry) = objectName entry"
  using foldl_set_attr_lookup [of k "[]" "pojo_attributes entry"]
  by (simp_all add: flatten_def foldl_set_attr_keys foldl_set_attr_distinct split: option.splits)

lemma flatten_mail:
  "flatten \<lparr>objectName = js ''cn=a'',
            pojo_attributes = [\<lparr>attr_type = js ''mail'', attr_values = [js ''a@x'', js ''b@x'']\<rparr>]\<rparr>
     = \<lparr>dn = js ''cn=a'', attributes = [(js ''mail'', [js ''a@x'', js ''b@x''])]\<rparr>"
  by (simp add: flatten_def set_attr_def obj_set_def js_def)

text \<open>
  C5. An entry whose one attribute has the type \<^verbatim>\<open>__proto__\<close> is flattened
  to a map without any key: the attribute name present in the raw entry is not
  a key of the result.
\<close>

theorem flatten_drops_proto:
  "flatten \<lparr>objectName = js ''cn=a'',
            pojo_attributes = [\<lparr>attr_type = js ''__proto__'', attr_values = [js ''x'']\<rparr>]\<rparr>
     = \<lparr>dn = js ''cn=a'', attributes = []\<rparr>"
  by (simp add: flatten_def set_attr_def obj_set_def)

section \<open>The result stream\<close>

lemma deliver_entries:
  "deliver sb (map SearchEntry es) st = (None, st\<lparr>entries := entries st @ map flatten es\<rparr>)"
  by (induction es arbitrary: st) simp_all

lemma deliver_append:
  "deliver sb (xs @ ys) st =
     (case deliver sb xs st of
        (Some e, st') \<Rightarrow> (Some e, st')
      | (None, st') \<Rightarrow> deliver sb ys st')"
  by (induction xs arbitrary: st) (auto split: prod.splits option.splits)

lemma deliver_entries_then:
  "deliver sb (map SearchEntry es @ evs) st
     = deliver sb evs (st\<lparr>entries := entries st @ map flatten es\<rparr>)"
  by (simp add: deliver_append deliver_entries)

lemma json_end_uncommitted:
  "committed (res st) = None \<Longrightarrow>
   json_end v st = (None, st\<lparr>res := (res st)\<lparr>committed := Some (statusCode (res st), Some v)\<rparr>\<rparr>)"
  by (simp add: json_end_def res_json_def res_end_def)

lemma json_end_committed:
  "committed (res st) = Some c \<Longrightarrow> json_end v st = (Some ERR_HTTP_HEADERS_SENT, st)"
  by (simp add: json_end_def res_json_def)

lemma on_event_keeps_committed:
  "committed (res st) = Some c \<Longrightarrow> committed (res (snd (on_event sb ev st))) = Some c"
  by (cases ev)
     (auto simp: json_end_committed res_status_def res_json_def split: ldap_error.splits)

lemma deliver_keeps_committed:
  "committed (res st) = Some c \<Longrightarrow> committed (res (snd (deliver sb evs st))) = Some c"
proof (induction evs arbitrary: st)
  case Nil
  then show ?case by simp
next
  case (Cons ev evs)
  obtain e st' where step: "on_event sb ev st = (e, st')"
    by (cases "on_event sb ev st")
  with Cons.prems have "committed (res st') = Some c"
    using on_event_keeps_committed [of st c sb ev] by simp
  with step Cons.IH [of st'] show ?case
    by (cases e) simp_all
qed

lemma terminal_commits:
  "is_terminal ev \<Longrightarrow> committed (res st) = None \<Longrightarrow>
   fst (on_event sb ev st) = None \<and> committed (res (snd (on_event sb ev st))) \<noteq> None"
  by (cases ev)
     (auto simp: json_end_uncommitted res_status_def res_json_def split: ldap_error.splits)

text \<open>
  A stream that holds a terminal event is some entries, its first terminal
  event, and what follows.
\<close>

lemma first_terminal_split:
  "\<exists>ev\<in>set evs. is_terminal ev \<Longrightarrow>
   \<exists>es ev later. evs = map SearchEntry es @ ev # later \<and> is_terminal ev"
proof (induction evs)
  case Nil
  then show ?case by simp
next
  case (Cons e evs)
  show ?case
  proof (cases "is_terminal e")
    case True
    then have "e # evs = map SearchEntry [] @ e # evs \<and> is_terminal e" by simp
    then show ?thesis by blast
  next
    case False
    then obtain entry where e: "e = SearchEntry entry"
      by (cases e) auto
    with Cons.prems have "\<exists>ev\<in>set evs. is_terminal ev" by auto
    then obtain es ev later where "evs = map SearchEntry es @ ev # later" "is_terminal ev"
      using Cons.IH by blast
    with e have "e # evs = map SearchEntry (entry # es) @ ev # later \<and> is_terminal ev"
      by simp
    then show ?thesis by blast
  qed
qed

text \<open>
  C6. When the first event after the entries is \<open>end\<close>: with status 0 the
  response is 200 with the array of the flattened entries in the order of
  their arrival; with any other status it is 400 with the message
  \<^verbatim>\<open>ldap status result was: \<close> followed by the status.
\<close>

theorem end_event_response:
  "search_callback sb (LdapRes (map SearchEntry es @ [End status])) fresh_response
     = (None,
        \<lparr>entries = map flatten es,
         res = (if status = 0
                then \<lparr>statusCode = 200,
                      committed = Some (200, Some (EntryArray (map flatten es)))\<rparr>
                else \<lparr>statusCode = 400,
                      committed = Some (400, Some (MessageObject
                        (js ''ldap status result was: '' @ Number_toString status)))\<rparr>)\<rparr>)"
  by (simp add: deliver_entries_then json_end_uncommitted res_status_def fresh_response_def
        res_json_def)

text \<open>
  C7. When the first event after the entries is \<open>error\<close>: for a
  NoSuchObjectError the response is 400 with the message \<^verbatim>\<open>not found: \<close>
  followed by the search base of the request; for any other error it is 500
  with the message of the error.
\<close>

theorem error_event_response:
  "search_callback (searchBase req) (LdapRes (map SearchEntry es @ [Error err])) fresh_response
     = (None,
        \<lparr>entries = map flatten es,
         res = (case err of
                  NoSuchObjectError m \<Rightarrow>
                    \<lparr>statusCode = 400,
                     committed = Some (400, Some (MessageObject
                       (js ''not found: '' @ searchBase req)))\<rparr>
                | OtherError m \<Rightarrow>
                    \<lparr>statusCode = 500,
                     committed = Some (500, Some (MessageObject m))\<rparr>)\<rparr>)"
  by (simp add: deliver_entries_then json_end_uncommitted res_status_def fresh_response_def
        split: ldap_error.split)

text \<open>
  C8. When the first event after the entries is a referral, whatever its URIs
  and however many entries came before: the response is 400 with the message
  \<^verbatim>\<open>referrals not supported\<close> and holds no entry. The referral is not
  followed: the client after the request is the one the handler left.
\<close>

theorem referral_event_response:
  "search_callback sb (LdapRes (map SearchEntry es @ [SearchReference uris])) fresh_response
     = (None,
        \<lparr>entries = map flatten es,
         res = \<lparr>statusCode = 400,
                committed = Some (400, Some (MessageObject (js ''referrals not supported'')))\<rparr>\<rparr>)
   \<and> fst (snd (serve req (LdapRes (map SearchEntry es @ [SearchReference uris])) client r))
       = snd (handler req client)"
  by (simp add: deliver_entries_then json_end_uncommitted res_status_def fresh_response_def
        serve_client)

text \<open>
  C9, as stated, fails: events delivered after a terminal event are not
  ignored. The listener of an \<open>end\<close> event that follows a referral runs and
  throws when it tries to respond, and an entry that follows an \<open>end\<close>
  event is still pushed onto \<open>entries\<close>.
\<close>

theorem later_events_not_ignored:
  "fst (search_callback (js ''dc=com'')
          (LdapRes [SearchReference [js ''ldap://other/dc=com''], End 0]) fresh_response)
     = Some ERR_HTTP_HEADERS_SENT
   \<and> fst (search_callback (js ''dc=com'')
          (LdapRes [SearchReference [js ''ldap://other/dc=com'']]) fresh_response) = None
   \<and> entries (snd (search_callback (js ''dc=com'')
          (LdapRes [End 0, SearchEntry \<lparr>objectName = js ''cn=a'', pojo_attributes = []\<rparr>])
          fresh_response))
     = [\<lparr>dn = js ''cn=a'', attributes = []\<rparr>]"
  by (simp add: json_end_def res_json_def res_end_def res_status_def fresh_response_def
        flatten_def)

text \<open>
  C9, amended. The first terminal event (end, error or referral) of a result
  stream commits the response, and whatever events are delivered after it, the
  committed response stays the one that this first terminal event produced.
\<close>

theorem first_terminal_event_wins:
  assumes "is_terminal ev"
  shows "committed (res (snd (search_callback sb
            (LdapRes (map SearchEntry es @ ev # later)) fresh_response)))
         = committed (res (snd (search_callback sb
            (LdapRes (map SearchEntry es @ [ev])) fresh_response)))
       \<and> committed (res (snd (search_callback sb
            (LdapRes (map SearchEntry es @ [ev])) fresh_response))) \<noteq> None"
proof -
  let ?st = "\<lparr>entries = map flatten es, res = fresh_response\<rparr>"
  have un: "committed (res ?st) = None" by (simp add: fresh_response_def)
  obtain st' where step: "on_event sb ev ?st = (None, st')"
    using terminal_commits [OF assms un, of sb] by (cases "on_event sb ev ?st") auto
  then obtain c where c: "committed (res st') = Some c"
    using terminal_commits [OF assms un, of sb] by auto
  show ?thesis
    using step c deliver_keeps_committed [OF c, of sb later]
    by (simp add: deliver_entries_then)
qed

theorem first_terminal_event_wins_witness:
  "committed (res (snd (search_callback (js ''dc=com'')
      (LdapRes [Error (NoSuchObjectError (js ''No Such Object'')), End 0]) fresh_response)))
     = Some (400, Some (MessageObject (js ''not found: dc=com'')))"
proof -
  have t: "is_terminal (Error (NoSuchObjectError (js ''No Such Object'')))"
    by simp
  from first_terminal_event_wins [OF t, of "js ''dc=com''" "[]" "[End 0]"] show ?thesis
    by (simp add: json_end_def res_json_def res_end_def res_status_def fresh_response_def js_def)
qed

text \<open>
  C10. When \<^verbatim>\<open>decodeURI\<close> rejects the filter value with a URIError, the
  handler throws that URIError with the client untouched: no search is issued,
  the callback never runs, and the response is left as it was.
\<close>

theorem malformed_filter_throws:
  assumes "decodeURI (query_get req (js ''filter'')) = Inl URIError"
  shows "handler req client = (Some URIError, client)
         \<and> serve req reply client r = (Some URIError, client, r)"
  using assms by (simp add: handler_cases serve_def)

theorem malformed_filter_throws_witness:
  "serve \<lparr>path = js ''/dc=com'', query = [js ''filter'' \<mapsto> QStr (js ''%E0%A4%A'')]\<rparr>
         (LdapRes [End 0]) \<lparr>issued = []\<rparr> fresh_response
     = (Some URIError, \<lparr>issued = []\<rparr>, fresh_response)"
  using malformed_filter_throws
    [of "\<lparr>path = js ''/dc=com'', query = [js ''filter'' \<mapsto> QStr (js ''%E0%A4%A'')]\<rparr>"]
  by (simp add: query_get_def decodeURI_malformed)

end
